theory Spec2Isabelle
  imports Main
begin

section \<open>Strings and values of the host language\<close>

text \<open>
  A string of the program is a \<^typ>\<open>string\<close>, one \<^typ>\<open>char\<close> per code unit
  (code units below 256). Numbers are mathematical integers: the program's numbers
  are doubles, which agree with them below \<open>2 ^ 53\<close> (ports, exit codes, process ids
  and counters are all far below).
\<close>

datatype error = Error string

text \<open>\<open>String.prototype.trim\<close>: white space and line terminators below 256.\<close>

definition isWhiteSpace :: "char \<Rightarrow> bool" where
  "isWhiteSpace c = (of_char c \<in> {9, 10, 11, 12, 13, 32, 160 :: nat})"

definition trim :: "string \<Rightarrow> string" where
  "trim s = rev (dropWhile isWhiteSpace (rev (dropWhile isWhiteSpace s)))"

definition isDigit :: "char \<Rightarrow> bool" where
  "isDigit c = (48 \<le> (of_char c :: nat) \<and> (of_char c :: nat) \<le> 57)"

definition digitChar :: "nat \<Rightarrow> char" where
  "digitChar d = char_of (48 + d)"

text \<open>\<open>String(n)\<close> for a positive integer \<open>n\<close> (plain decimal below \<open>10 ^ 21\<close>).\<close>

function decimal :: "nat \<Rightarrow> string" where
  "decimal n = (if n < 10 then [digitChar n] else decimal (n div 10) @ [digitChar (n mod 10)])"
  by pat_completeness auto
termination
  by (relation "measure id") auto

declare decimal.simps [simp del]

section \<open>Argument validation\<close>

definition assertString :: "string \<Rightarrow> string \<Rightarrow> error + string" where
  "assertString v field =
     (if trim v = [] then Inl (Error (field @ '' must be a non-empty string'')) else Inr v)"

text \<open>\<open>CONTROL_CHAR_RE = /[\0\r\n]/\<close>\<close>

definition isControlChar :: "char \<Rightarrow> bool" where
  "isControlChar c = (of_char c \<in> {0, 13, 10 :: nat})"

definition assertNoControlChars :: "string \<Rightarrow> string \<Rightarrow> error + string" where
  "assertNoControlChars v field =
     (if \<exists>c \<in> set v. isControlChar c
      then Inl (Error (field @ '' contains invalid control characters''))
      else Inr v)"

text \<open>The character class \<open>[A-Za-z0-9._-]\<close> of \<open>SAFE_SERVER_RE\<close> and of the session name.\<close>

definition isSafeNameChar :: "char \<Rightarrow> bool" where
  "isSafeNameChar c =
     (let n = (of_char c :: nat) in
      (65 \<le> n \<and> n \<le> 90) \<or> (97 \<le> n \<and> n \<le> 122) \<or> (48 \<le> n \<and> n \<le> 57) \<or>
      c = CHR ''.'' \<or> c = CHR ''_'' \<or> c = CHR ''-'')"

text \<open>\<open>/^[A-Za-z0-9._-]+$/.test(s)\<close>\<close>

definition matchesSafeName :: "string \<Rightarrow> bool" where
  "matchesSafeName s = (s \<noteq> [] \<and> (\<forall>c \<in> set s. isSafeNameChar c))"

definition assertServerName :: "string \<Rightarrow> string \<Rightarrow> error + string" where
  "assertServerName v field =
     (case assertString v field of
        Inl e \<Rightarrow> Inl e
      | Inr s \<Rightarrow>
          (case assertNoControlChars s field of
             Inl e \<Rightarrow> Inl e
           | Inr serverName \<Rightarrow>
               if \<not> matchesSafeName serverName
               then Inl (Error (field @
                      '' must match /^[A-Za-z0-9._-]+$/ (letters, numbers, ., _, -)''))
               else Inr serverName))"

definition assertPath :: "string \<Rightarrow> string \<Rightarrow> error + string" where
  "assertPath v field =
     (case assertString v field of
        Inl e \<Rightarrow> Inl e
      | Inr s \<Rightarrow> assertNoControlChars s field)"

definition assertPositiveInt :: "int \<Rightarrow> string \<Rightarrow> error + int" where
  "assertPositiveInt v field =
     (if v \<le> 0 then Inl (Error (field @ '' must be a positive integer'')) else Inr v)"

section \<open>Remote transport: ssh and scp arguments\<close>

record ServerConfig =
  host :: string
  user :: string
  port :: "int option"
  identity_file :: "string option"













section \<open>Parsing the process id of a background start\<close>

text \<open>\<open>s.split("\n")\<close>: the pieces between the separators, at least one piece.\<close>

fun splitOn :: "char \<Rightarrow> string \<Rightarrow> string list" where
  "splitOn sep [] = [[]]"
| "splitOn sep (c # cs) =
     (if c = sep then [] # splitOn sep cs
      else (case splitOn sep cs of
              [] \<Rightarrow> [[c]]
            | l # ls \<Rightarrow> (c # l) # ls))"

text \<open>\<open>s.startsWith(p)\<close>\<close>

definition startsWith :: "string \<Rightarrow> string \<Rightarrow> bool" where
  "startsWith s p = (take (length p) s = p)"

text \<open>\<open>s.replace(pat, rep)\<close> with a string pattern: the first occurrence only.\<close>

fun replaceFirst :: "string \<Rightarrow> string \<Rightarrow> string \<Rightarrow> string" where
  "replaceFirst [] pat rep = (if pat = [] then rep else [])"
| "replaceFirst (c # cs) pat rep =
     (if startsWith (c # cs) pat then rep @ drop (length pat) (c # cs)
      else c # replaceFirst cs pat rep)"

definition digitValue :: "char \<Rightarrow> nat" where
  "digitValue c = of_char c - 48"

definition digitsValue :: "string \<Rightarrow> nat" where
  "digitsValue ds = foldl (\<lambda>a c. 10 * a + digitValue c) 0 ds"

text \<open>
  \<open>parseInt(s, 10)\<close>: leading white space is skipped, one sign is read, then the
  longest run of decimal digits; \<open>None\<close> is \<open>NaN\<close> (no digit there).
\<close>

definition parseInt10 :: "string \<Rightarrow> int option" where
  "parseInt10 s =
     (let t = dropWhile isWhiteSpace s;
          neg = (case t of [] \<Rightarrow> False | c # _ \<Rightarrow> c = CHR ''-'');
          u = (case t of [] \<Rightarrow> [] | c # r \<Rightarrow> if c = CHR ''-'' \<or> c = CHR ''+'' then r else t);
          ds = takeWhile isDigit u
      in if ds = [] then None
         else Some (if neg then - int (digitsValue ds) else int (digitsValue ds)))"

text \<open>\<open>/^\d+$/.test(s)\<close>\<close>

definition allDigits :: "string \<Rightarrow> bool" where
  "allDigits s = (s \<noteq> [] \<and> (\<forall>c \<in> set s. isDigit c))"

definition pidMarker :: string where
  "pidMarker = ''__MCP_PID__''"

text \<open>\<open>rawOutput.split("\n").map((line) => line.trim()).filter(Boolean)\<close>\<close>

definition trimmedLines :: "string \<Rightarrow> string list" where
  "trimmedLines rawOutput = filter (\<lambda>l. l \<noteq> []) (map trim (splitOn (CHR 0x0A) rawOutput))"

text \<open>
  The loop \<open>for (i = lines.length - 1; i >= 0; i -= 1)\<close>, as a walk of the reversed
  list of lines.
\<close>

fun scanDigitLines :: "string list \<Rightarrow> int option" where
  "scanDigitLines [] = None"
| "scanDigitLines (l # ls) =
     (if allDigits l
      then (case parseInt10 l of
              None \<Rightarrow> scanDigitLines ls
            | Some pid \<Rightarrow> if pid > 0 then Some pid else scanDigitLines ls)
      else scanDigitLines ls)"

definition parseBackgroundPid :: "string \<Rightarrow> int option" where
  "parseBackgroundPid rawOutput =
     (let lines = trimmedLines rawOutput;
          fallback = scanDigitLines (rev lines)
      in case find (\<lambda>line. startsWith line pidMarker) lines of
           None \<Rightarrow> fallback
         | Some marker \<Rightarrow>
             (case parseInt10 (replaceFirst marker pidMarker []) of
                None \<Rightarrow> fallback
              | Some pid \<Rightarrow> if pid > 0 then Some pid else fallback))"








section \<open>Watch layer: the path filter\<close>

text \<open>\<open>value.replace(/\\/g, "/")\<close>\<close>

definition normalizeWatchPath :: "string \<Rightarrow> string" where
  "normalizeWatchPath v = map (\<lambda>c. if c = CHR 0x5C then CHR ''/'' else c) v"

text \<open>\<open>s.includes(sub)\<close>\<close>

fun stringIncludes :: "string \<Rightarrow> string \<Rightarrow> bool" where
  "stringIncludes [] sub = (sub = [])"
| "stringIncludes (c # cs) sub = (startsWith (c # cs) sub \<or> stringIncludes cs sub)"

text \<open>
  \<open>posixPath.basename(path)\<close> of the standard library: trailing separators are
  dropped, and the result is what follows the last separator of the rest.
\<close>

definition basename :: "string \<Rightarrow> string" where
  "basename path =
     rev (takeWhile (\<lambda>c. c \<noteq> CHR ''/'') (dropWhile (\<lambda>c. c = CHR ''/'') (rev path)))"

text \<open>
  \<open>wildcardToRegex(pattern).test(s)\<close>: every character of the pattern but \<open>*\<close> is
  escaped or is an ordinary character, so it stands for itself; \<open>*\<close> becomes \<open>.*\<close>,
  any run of characters other than line terminators; the expression is anchored at
  both ends.
\<close>

definition isLineTerminator :: "char \<Rightarrow> bool" where
  "isLineTerminator c = (of_char c \<in> {10, 13 :: nat})"

fun wildcardMatch :: "string \<Rightarrow> string \<Rightarrow> bool" where
  "wildcardMatch [] s = (s = [])"
| "wildcardMatch (p # ps) [] = (p = CHR ''*'' \<and> wildcardMatch ps [])"
| "wildcardMatch (p # ps) (c # cs) =
     (if p = CHR ''*''
      then wildcardMatch ps (c # cs) \<or> (\<not> isLineTerminator c \<and> wildcardMatch (p # ps) cs)
      else p = c \<and> wildcardMatch ps cs)"

text \<open>The loop over the exclude patterns, with its early \<open>return true\<close>.\<close>

fun matchesAnyPattern :: "string \<Rightarrow> string \<Rightarrow> string list \<Rightarrow> bool" where
  "matchesAnyPattern normalized base [] = False"
| "matchesAnyPattern normalized base (pattern # rest) =
     (let p = normalizeWatchPath pattern in
      if \<not> stringIncludes p ''*'' then
        (if stringIncludes p ''/'' then
           (if normalized = p \<or> startsWith normalized (p @ ''/'') then True
            else matchesAnyPattern normalized base rest)
         else
           (if normalized = p \<or> stringIncludes normalized (''/'' @ p @ ''/'') \<or> base = p then True
            else matchesAnyPattern normalized base rest))
      else
        (if stringIncludes p ''/'' then
           (if wildcardMatch p normalized then True
            else matchesAnyPattern normalized base rest)
         else
           (if wildcardMatch p base then True
            else matchesAnyPattern normalized base rest)))"

definition shouldIgnorePath :: "string \<Rightarrow> string list \<Rightarrow> bool" where
  "shouldIgnorePath relativePath excludePatterns =
     (let normalized = normalizeWatchPath relativePath;
          base = basename normalized
      in matchesAnyPattern normalized base excludePatterns)"

section \<open>Sync engine\<close>

record ExecResult =
  stdout :: string
  stderr :: string
  exitCode :: int

text \<open>
  What \<open>performRemoteSync\<close> reads of the world: the result of every
  \<open>executeCommand(program, args, timeoutMs)\<close>, what \<open>statSync\<close> and
  \<open>readdirSync\<close> find at a local path (\<open>None\<close> where they throw), and the
  platform's \<open>join\<close> and \<open>posixPath.dirname\<close>, taken as given.
\<close>

datatype fsEntry = IsFile | IsDirectory "string list option" | IsOther



text \<open>\<open>`'${value.replace(/'/g, `'\"'\"'`)}'`\<close>\<close>

definition shellQuote :: "string \<Rightarrow> string" where
  "shellQuote v =
     [CHR 0x27] @ concat (map (\<lambda>c. if c = CHR 0x27
                                    then [CHR 0x27, CHR 0x22, CHR 0x27, CHR 0x22, CHR 0x27]
                                    else [c]) v) @ [CHR 0x27]"










text \<open>\<open>s.toLowerCase()\<close> on code units below 256.\<close>

definition toLowerChar :: "char \<Rightarrow> char" where
  "toLowerChar c =
     (let n = (of_char c :: nat) in
      if (65 \<le> n \<and> n \<le> 90) \<or> (192 \<le> n \<and> n \<le> 222 \<and> n \<noteq> 215) then char_of (n + 32) else c)"

definition toLowerCase :: "string \<Rightarrow> string" where
  "toLowerCase s = map toLowerChar s"


record SyncExecutionResult =
  success :: bool
  sync_method :: string
  exit_code :: int
  sync_output :: string
  sync_stderr :: string
  sync_exclude :: "string list"
  delete_remote_extra :: bool
  fallback_used :: bool
  rsync_error :: "string option"

record SyncParams =
  p_server :: string
  p_local_path :: string
  p_remote_path :: string
  p_exclude :: "string list option"
  p_method :: "string option"
  p_delete_remote_extra :: "bool option"

text \<open>
  \<open>assertStringArray\<close>: every item is checked in order, under the field name
  \<open>field[idx]\<close>.
\<close>

fun assertStringItems :: "string list \<Rightarrow> string \<Rightarrow> nat \<Rightarrow> error + string list" where
  "assertStringItems [] field idx = Inr []"
| "assertStringItems (item # items) field idx =
     (let f = field @ ''['' @ decimal idx @ '']'' in
      case assertString item f of
        Inl e \<Rightarrow> Inl e
      | Inr s \<Rightarrow>
          (case assertNoControlChars s f of
             Inl e \<Rightarrow> Inl e
           | Inr t \<Rightarrow>
               (case assertStringItems items field (Suc idx) of
                  Inl e \<Rightarrow> Inl e
                | Inr ts \<Rightarrow> Inr (t # ts))))"

definition assertStringArray :: "string list \<Rightarrow> string \<Rightarrow> error + string list" where
  "assertStringArray v field = assertStringItems v field 0"











section \<open>Development sessions\<close>

datatype DevSessionMode = Short | Long

datatype DevSessionState = Running | Stopped | ErrorState

text \<open>
  The debounce timer field: \<open>None\<close> is \<open>undefined\<close>; a handle is armed, with the
  reason its callback will pass on, or has fired (the field keeps the handle).
\<close>

datatype timerHandle = Armed string | Fired

record DevSession =
  sid :: string
  name :: string
  server :: string
  localPath :: string
  remotePath :: string
  remoteWorkingDir :: string
  exclude :: "string list"
  syncMethod :: string
  deleteRemoteExtra :: bool
  mode :: DevSessionMode
  shortCommand :: "string option"
  longCommand :: "string option"
  debounceMs :: int
  pollIntervalSeconds :: int
  logLines :: int
  followSeconds :: int
  watcher :: bool
  debounceTimer :: "timerHandle option"
  pollingTimer :: bool
  running :: bool
  pending :: bool
  stopRequested :: bool
  status :: DevSessionState
  startedAt :: int
  lastSyncAt :: "int option"
  lastRunAt :: "int option"
  syncCount :: int
  runCount :: int
  changedPaths :: "string list"
  lastError :: "string option"
  lastOperation :: "string option"
  pid :: "int option"
  logFile :: "string option"
  lastSyncResult :: "SyncExecutionResult option"
  lastShortRun :: "ExecResult option"
  lastTailLog :: "string option"
  lastTailStderr :: "string option"
  lastProcessInfo :: "string option"
  isProcessRunning :: "bool option"

text \<open>\<open>Date.now()\<close> and \<open>new Date().toISOString()\<close> at the moment of an event.\<close>

record clock =
  nowMs :: int
  nowIso :: string

text \<open>
  An activation of \<open>runDevSessionCycle\<close> that is suspended at an \<open>await\<close>: on the
  sync, on the short command, on the process lookup of \<open>maybeStartLongTask\<close>, or on
  its background start (which remembers \<open>actualLogFile\<close>). Each keeps the \<open>reason\<close>
  the activation was called with.
\<close>

datatype activation =
    AwaitSync string
  | AwaitShortRun string
  | AwaitProcessCheck string
  | AwaitLongStart string string

text \<open>
  The asynchronous operations an activation starts: \<open>performRemoteSync\<close> with its
  parameters, and \<open>executeRemoteCommand\<close> on the session's server at its three call
  sites, with the remote command.
\<close>

datatype operation =
    SyncOp SyncParams
  | ShortRunOp string
  | ProcessCheckOp string
  | LongStartOp string

text \<open>
  One session with the activations of its cycle function that are suspended, oldest
  first, and the operations started so far.
\<close>

record machine =
  session :: DevSession
  activations :: "activation list"
  started :: "operation list"

text \<open>
  What can happen to a session. The program runs on one thread: between two events
  nothing else touches the session, and an activation runs from one \<open>await\<close> to the
  next within one event. An awaited call settles with a result, or rejects (\<open>Inl\<close>).
  The two poller events are the writes of \<open>pollLongTask\<close> after its process lookup
  and after its log tail.
\<close>

datatype event =
    CycleRequested string
  | FileChanged "string option"
  | DebounceElapsed
  | StopRequested
  | SyncReturned "error + SyncExecutionResult" clock
  | ShortRunReturned "error + ExecResult" clock
  | ProcessCheckReturned "error + ExecResult" clock
  | LongStartReturned "error + ExecResult" clock
  | PollerChecked ExecResult
  | PollerTailed ExecResult

text \<open>\<open>String(n)\<close> for an integer.\<close>

definition showInt :: "int \<Rightarrow> string" where
  "showInt i = (if i < 0 then ''-'' @ decimal (nat (- i)) else decimal (nat i))"

definition markSessionError :: "string \<Rightarrow> DevSession \<Rightarrow> DevSession" where
  "markSessionError message s = s\<lparr> status := ErrorState, lastError := Some message \<rparr>"

definition clearSessionTimers :: "DevSession \<Rightarrow> DevSession" where
  "clearSessionTimers s = s\<lparr> debounceTimer := None, pollingTimer := False \<rparr>"

definition syncParamsOf :: "DevSession \<Rightarrow> SyncParams" where
  "syncParamsOf s =
     \<lparr> p_server = server s, p_local_path = localPath s, p_remote_path = remotePath s,
       p_exclude = Some (exclude s), p_method = Some (syncMethod s),
       p_delete_remote_extra = Some (deleteRemoteExtra s) \<rparr>"

text \<open>
  The pieces of \<open>runDevSessionCycle\<close> between two \<open>await\<close>s. Each gives the session
  as it leaves it, the operations it starts, and where the activation is suspended
  next (\<open>None\<close>: the activation has returned).
\<close>

type_synonym progress = "DevSession \<times> operation list \<times> activation option"

text \<open>The head of the \<open>do\<close> body, up to the call of \<open>performRemoteSync\<close>.\<close>

definition startIteration :: "string \<Rightarrow> DevSession \<Rightarrow> progress" where
  "startIteration reason s =
     (s\<lparr> pending := False, status := Running, lastError := None,
         lastOperation := Some (''sync ('' @ reason @ '')'') \<rparr>,
      [SyncOp (syncParamsOf s)],
      Some (AwaitSync reason))"

text \<open>
  The end of the \<open>do\<close> body: \<open>while (session.pending && !session.stopRequested)\<close>,
  and \<open>finally\<close> when the loop is left.
\<close>

definition loopCheck :: "string \<Rightarrow> DevSession \<Rightarrow> progress" where
  "loopCheck reason s =
     (if pending s \<and> \<not> stopRequested s then startIteration reason s
      else (s\<lparr> running := False \<rparr>, [], None))"

text \<open>An exception in the body: \<open>catch\<close>, then \<open>finally\<close>.\<close>

definition thrown :: "string \<Rightarrow> DevSession \<Rightarrow> progress" where
  "thrown message s = ((markSessionError message s)\<lparr> running := False \<rparr>, [], None)"

text \<open>A string that may be \<open>undefined\<close>: its truth value, and \<open>v || d\<close>.\<close>

definition truthy :: "string option \<Rightarrow> bool" where
  "truthy v = (case v of None \<Rightarrow> False | Some x \<Rightarrow> x \<noteq> [])"

definition orElse :: "string option \<Rightarrow> string \<Rightarrow> string" where
  "orElse v d = (case v of None \<Rightarrow> d | Some x \<Rightarrow> if x = [] then d else x)"

definition processCheckCommand :: "int \<Rightarrow> string" where
  "processCheckCommand p = ''ps -p '' @ showInt p @ '' -o pid=,stat=,etime=,command=''"

text \<open>
  The second half of \<open>maybeStartLongTask\<close>, up to the call that starts the detached
  process. The time stamp is \<open>toISOString().replace(/[:.]/g, "-")\<close>.
\<close>

definition startLongTask :: "clock \<Rightarrow> string \<Rightarrow> DevSession \<Rightarrow> progress" where
  "startLongTask c reason s =
     (let timestamp = map (\<lambda>x. if x = CHR '':'' \<or> x = CHR ''.'' then CHR ''-'' else x) (nowIso c);
          actualLogFile =
            orElse (logFile s)
              (remoteWorkingDir s @ ''/'' @ name s @ ''_'' @ timestamp @ ''.log'');
          bgCommand =
            ''cd '' @ shellQuote (remoteWorkingDir s) @ '' && nohup ''
            @ (case longCommand s of None \<Rightarrow> [] | Some l \<Rightarrow> l)
            @ '' > '' @ shellQuote actualLogFile
            @ '' 2>&1 < /dev/null & printf '' @ [CHR 0x22] @ ''__MCP_PID__%s'' @ [CHR 0x5C]
            @ ''n'' @ [CHR 0x22, CHR '' '', CHR 0x22] @ ''$!'' @ [CHR 0x22]
      in (s, [LongStartOp bgCommand], Some (AwaitLongStart reason actualLogFile)))"

text \<open>The first half of \<open>maybeStartLongTask\<close>, up to its first \<open>await\<close>.\<close>

definition maybeStartLongTask :: "clock \<Rightarrow> string \<Rightarrow> DevSession \<Rightarrow> progress" where
  "maybeStartLongTask c reason s =
     (if mode s \<noteq> Long \<or> \<not> truthy (longCommand s) then loopCheck reason s
      else (case pid s of
              None \<Rightarrow> startLongTask c reason s
            | Some p \<Rightarrow>
                if p = 0 then startLongTask c reason s
                else (s, [ProcessCheckOp (processCheckCommand p)],
                      Some (AwaitProcessCheck reason))))"

text \<open>After \<open>await performRemoteSync(...)\<close>.\<close>

definition afterSync :: "error + SyncExecutionResult \<Rightarrow> clock \<Rightarrow> string \<Rightarrow> DevSession \<Rightarrow> progress" where
  "afterSync r c reason s0 =
     (case r of
        Inl (Error message) \<Rightarrow> thrown message s0
      | Inr syncRes \<Rightarrow>
          (let s = s0\<lparr> lastSyncResult := Some syncRes, syncCount := syncCount s0 + 1,
                       lastSyncAt := Some (nowMs c), changedPaths := [] \<rparr>
           in if \<not> success syncRes then
                thrown (if sync_stderr syncRes \<noteq> [] then sync_stderr syncRes
                        else ''sync failed with exit code '' @ showInt (exit_code syncRes)) s
              else if mode s = Short \<and> truthy (shortCommand s) then
                (s\<lparr> lastOperation := Some ''short command run'' \<rparr>,
                 [ShortRunOp (''cd '' @ shellQuote (remoteWorkingDir s) @ '' && ''
                              @ (case shortCommand s of None \<Rightarrow> [] | Some cmd \<Rightarrow> cmd))],
                 Some (AwaitShortRun reason))
              else if mode s = Long then maybeStartLongTask c reason s
              else loopCheck reason s))"

text \<open>After \<open>await executeRemoteCommand(...)\<close> of the short command.\<close>

definition afterShortRun :: "error + ExecResult \<Rightarrow> clock \<Rightarrow> string \<Rightarrow> DevSession \<Rightarrow> progress" where
  "afterShortRun r c reason s0 =
     (case r of
        Inl (Error message) \<Rightarrow> thrown message s0
      | Inr runRes \<Rightarrow>
          (let s1 = s0\<lparr> lastShortRun := Some runRes, runCount := runCount s0 + 1,
                        lastRunAt := Some (nowMs c) \<rparr>;
               s = (if exitCode runRes \<noteq> 0
                    then s1\<lparr> lastError := Some (''short command failed with exit code ''
                                                    @ showInt (exitCode runRes)) \<rparr>
                    else s1)
           in loopCheck reason s))"

text \<open>After the process lookup of \<open>maybeStartLongTask\<close>.\<close>

definition afterProcessCheck :: "error + ExecResult \<Rightarrow> clock \<Rightarrow> string \<Rightarrow> DevSession \<Rightarrow> progress" where
  "afterProcessCheck r c reason s0 =
     (case r of
        Inl (Error message) \<Rightarrow> thrown message s0
      | Inr checkRes \<Rightarrow>
          (let alive = (exitCode checkRes = 0 \<and> trim (stdout checkRes) \<noteq> []);
               s = s0\<lparr> isProcessRunning := Some alive,
                        lastProcessInfo := Some (stdout checkRes) \<rparr>
           in if alive then loopCheck reason s else startLongTask c reason s))"

text \<open>After the background start of \<open>maybeStartLongTask\<close>.\<close>

definition afterLongStart ::
  "error + ExecResult \<Rightarrow> clock \<Rightarrow> string \<Rightarrow> string \<Rightarrow> DevSession \<Rightarrow> progress" where
  "afterLongStart r c reason actualLogFile s0 =
     (case r of
        Inl (Error message) \<Rightarrow> thrown message s0
      | Inr result \<Rightarrow>
          (case parseBackgroundPid (stdout result) of
             None \<Rightarrow>
               thrown (''failed to start long task: ''
                       @ (if stderr result \<noteq> [] then stderr result else stdout result)) s0
           | Some newPid \<Rightarrow>
               if exitCode result \<noteq> 0 then
                 thrown (''failed to start long task: ''
                         @ (if stderr result \<noteq> [] then stderr result else stdout result)) s0
               else
                 loopCheck reason
                   (s0\<lparr> pid := Some newPid, logFile := Some actualLogFile,
                        isProcessRunning := Some True, runCount := runCount s0 + 1,
                        lastRunAt := Some (nowMs c),
                        lastOperation := Some ''long task started'' \<rparr>)))"

text \<open>
  An awaited call settles: the activation that waits for it goes on. \<open>None\<close> when
  the event is not the one this activation waits for.
\<close>

fun resume :: "event \<Rightarrow> activation \<Rightarrow> DevSession \<Rightarrow> progress option" where
  "resume (SyncReturned r c) (AwaitSync reason) s = Some (afterSync r c reason s)"
| "resume (ShortRunReturned r c) (AwaitShortRun reason) s = Some (afterShortRun r c reason s)"
| "resume (ProcessCheckReturned r c) (AwaitProcessCheck reason) s =
     Some (afterProcessCheck r c reason s)"
| "resume (LongStartReturned r c) (AwaitLongStart reason f) s =
     Some (afterLongStart r c reason f s)"
| "resume e a s = None"

text \<open>
  A call of \<open>runDevSessionCycle(session, reason)\<close>, up to its first \<open>await\<close> or its
  \<open>return\<close>.
\<close>

definition runDevSessionCycle :: "string \<Rightarrow> machine \<Rightarrow> machine" where
  "runDevSessionCycle reason m =
     (let s = session m in
      if stopRequested s then m
      else if running s then m\<lparr> session := s\<lparr> pending := True \<rparr> \<rparr>
      else (case startIteration reason (s\<lparr> running := True \<rparr>) of
              (s', ops, k) \<Rightarrow>
                m\<lparr> session := s', started := started m @ ops,
                   activations := activations m @ (case k of None \<Rightarrow> [] | Some a \<Rightarrow> [a]) \<rparr>))"

definition scheduleDevSessionCycle :: "string \<Rightarrow> DevSession \<Rightarrow> DevSession" where
  "scheduleDevSessionCycle reason s =
     (if stopRequested s then s else s\<lparr> debounceTimer := Some (Armed reason) \<rparr>)"

text \<open>The callback of the watcher; a closed watcher calls nothing.\<close>

definition watchCallback :: "string option \<Rightarrow> DevSession \<Rightarrow> DevSession" where
  "watchCallback filename s =
     (if \<not> watcher s then s
      else if stopRequested s then s
      else (case filename of
              None \<Rightarrow> scheduleDevSessionCycle ''watch event'' s
            | Some f \<Rightarrow>
                if f = [] then scheduleDevSessionCycle ''watch event'' s
                else (let changed = normalizeWatchPath f in
                      if shouldIgnorePath changed (exclude s) then s
                      else scheduleDevSessionCycle changed
                             (s\<lparr> changedPaths :=
                                   (if changed \<in> set (changedPaths s) then changedPaths s
                                    else changedPaths s @ [changed]) \<rparr>))))"

text \<open>
  The part of the \<open>dev_session_stop\<close> handler that touches the cycle: the flags, the
  timers and the watcher. (The optional remote kill that follows writes
  \<open>isProcessRunning\<close> only.)
\<close>

definition stopSession :: "DevSession \<Rightarrow> DevSession" where
  "stopSession s =
     (clearSessionTimers
        (s\<lparr> stopRequested := True, status := Stopped,
            lastOperation := Some ''session stopped'' \<rparr>))\<lparr> watcher := False \<rparr>"

text \<open>
  An awaited call settles: the oldest suspended activation goes on, if the event is
  the one it waits for; its \<open>await\<close> is replaced by where it is suspended next.
\<close>

definition settle :: "event \<Rightarrow> machine \<Rightarrow> machine" where
  "settle e m =
     (case activations m of
        [] \<Rightarrow> m
      | a # rest \<Rightarrow>
          (case resume e a (session m) of
             None \<Rightarrow> m
           | Some (s', ops, k) \<Rightarrow>
               m\<lparr> session := s', started := started m @ ops,
                  activations := (case k of None \<Rightarrow> rest | Some a' \<Rightarrow> a' # rest) \<rparr>))"

definition step :: "event \<Rightarrow> machine \<Rightarrow> machine" where
  "step e m =
     (case e of
        CycleRequested reason \<Rightarrow> runDevSessionCycle reason m
      | FileChanged filename \<Rightarrow> m\<lparr> session := watchCallback filename (session m) \<rparr>
      | DebounceElapsed \<Rightarrow>
          (case debounceTimer (session m) of
             Some (Armed reason) \<Rightarrow>
               runDevSessionCycle reason
                 (m\<lparr> session := (session m)\<lparr> debounceTimer := Some Fired \<rparr> \<rparr>)
           | _ \<Rightarrow> m)
      | StopRequested \<Rightarrow> m\<lparr> session := stopSession (session m) \<rparr>
      | PollerChecked checkRes \<Rightarrow>
          (if mode (session m) \<noteq> Long then m
           else m\<lparr> session := (session m)
                  \<lparr> isProcessRunning :=
                      Some (exitCode checkRes = 0 \<and> trim (stdout checkRes) \<noteq> []),
                    lastProcessInfo := Some (stdout checkRes) \<rparr> \<rparr>)
      | PollerTailed tailRes \<Rightarrow>
          (if mode (session m) \<noteq> Long then m
           else m\<lparr> session := (session m)
                  \<lparr> lastTailLog := Some (stdout tailRes),
                    lastTailStderr := Some (stderr tailRes) \<rparr> \<rparr>)
      | SyncReturned r c \<Rightarrow> settle e m
      | ShortRunReturned r c \<Rightarrow> settle e m
      | ProcessCheckReturned r c \<Rightarrow> settle e m
      | LongStartReturned r c \<Rightarrow> settle e m)"

definition run :: "event list \<Rightarrow> machine \<Rightarrow> machine" where
  "run es m = foldl (\<lambda>m e. step e m) m es"

section \<open>Starting a session\<close>

definition assertSessionName :: "string \<Rightarrow> error + string" where
  "assertSessionName v =
     (case assertString v ''session_name'' of
        Inl e \<Rightarrow> Inl e
      | Inr s \<Rightarrow>
          (case assertNoControlChars s ''session_name'' of
             Inl e \<Rightarrow> Inl e
           | Inr n \<Rightarrow>
               if \<not> matchesSafeName n
               then Inl (Error ''session_name must contain only letters, numbers, ., _, -'')
               else Inr n))"

definition assertDevSessionMode :: "string \<Rightarrow> error + DevSessionMode" where
  "assertDevSessionMode v =
     (case assertString v ''mode'' of
        Inl e \<Rightarrow> Inl e
      | Inr s \<Rightarrow>
          (case assertNoControlChars s ''mode'' of
             Inl e \<Rightarrow> Inl e
           | Inr t \<Rightarrow>
               (let m = toLowerCase t in
                if m = ''short'' then Inr Short
                else if m = ''long'' then Inr Long
                else Inl (Error ''mode must be short or long''))))"

definition assertSyncMethod :: "string \<Rightarrow> error + string" where
  "assertSyncMethod v =
     (case assertString v ''method'' of
        Inl e \<Rightarrow> Inl e
      | Inr s \<Rightarrow>
          (case assertNoControlChars s ''method'' of
             Inl e \<Rightarrow> Inl e
           | Inr t \<Rightarrow>
               (let m = toLowerCase t in
                if m \<notin> {''auto'', ''rsync'', ''scp''}
                then Inl (Error ''method must be one of: auto, rsync, scp'')
                else Inr m)))"

text \<open>The arguments of \<open>dev_session_start\<close>; \<open>None\<close> is an argument left out.\<close>

record StartArgs =
  a_session_name :: "string option"
  a_server :: string
  a_local_path :: string
  a_remote_path :: string
  a_remote_working_dir :: "string option"
  a_mode :: "string option"
  a_short_command :: "string option"
  a_long_command :: "string option"
  a_exclude :: "string list option"
  a_method :: "string option"
  a_delete_remote_extra :: "bool option"
  a_debounce_ms :: "int option"
  a_poll_interval_seconds :: "int option"
  a_log_lines :: "int option"
  a_follow_seconds :: "int option"

text \<open>
  What the handler reads of the world: the suffix \<open>createSessionId\<close> appends to the
  name (time stamp and random part), \<open>Date.now()\<close>, and whether \<open>watch\<close> throws.
\<close>

record startEnv =
  idSuffix :: string
  startClock :: int
  watchError :: "string option"

text \<open>The registry \<open>devSessions\<close>: each session with its suspended activations.\<close>

type_synonym registry = "string \<rightharpoonup> machine"

text \<open>The validated arguments, in the order the handler checks them.\<close>

record SafeArgs =
  safeSessionName :: string
  safeServer :: string
  safeLocalPath :: string
  safeRemotePath :: string
  safeRemoteWorkingDir :: string
  safeMode :: DevSessionMode
  safeExclude :: "string list"
  safeMethod :: string
  safeDeleteRemoteExtra :: bool
  safeDebounceMs :: int
  safePollInterval :: int
  safeLogLines :: int
  safeFollowSeconds :: int
  safeShortCommand :: "string option"
  safeLongCommand :: "string option"

definition validateStartArgs :: "StartArgs \<Rightarrow> error + SafeArgs" where
  "validateStartArgs args =
     (case assertSessionName
             (case a_session_name args of None \<Rightarrow> ''dev-session'' | Some n \<Rightarrow> n) of
        Inl e \<Rightarrow> Inl e
      | Inr sName \<Rightarrow>
     (case assertServerName (a_server args) ''server'' of
        Inl e \<Rightarrow> Inl e
      | Inr sServer \<Rightarrow>
     (case assertPath (a_local_path args) ''local_path'' of
        Inl e \<Rightarrow> Inl e
      | Inr sLocal \<Rightarrow>
     (case assertPath (a_remote_path args) ''remote_path'' of
        Inl e \<Rightarrow> Inl e
      | Inr sRemote \<Rightarrow>
     (case (case a_remote_working_dir args of
              None \<Rightarrow> Inr sRemote
            | Some d \<Rightarrow> if d = [] then Inr sRemote else assertPath d ''remote_working_dir'') of
        Inl e \<Rightarrow> Inl e
      | Inr sDir \<Rightarrow>
     (case assertDevSessionMode (case a_mode args of None \<Rightarrow> ''short'' | Some x \<Rightarrow> x) of
        Inl e \<Rightarrow> Inl e
      | Inr sMode \<Rightarrow>
     (case assertStringArray (case a_exclude args of None \<Rightarrow> [] | Some x \<Rightarrow> x) ''exclude'' of
        Inl e \<Rightarrow> Inl e
      | Inr sExclude \<Rightarrow>
     (case assertSyncMethod (case a_method args of None \<Rightarrow> ''auto'' | Some x \<Rightarrow> x) of
        Inl e \<Rightarrow> Inl e
      | Inr sMethod \<Rightarrow>
     (case assertPositiveInt (case a_debounce_ms args of None \<Rightarrow> 800 | Some x \<Rightarrow> x)
             ''debounce_ms'' of
        Inl e \<Rightarrow> Inl e
      | Inr sDebounce \<Rightarrow>
     (case assertPositiveInt (case a_poll_interval_seconds args of None \<Rightarrow> 5 | Some x \<Rightarrow> x)
             ''poll_interval_seconds'' of
        Inl e \<Rightarrow> Inl e
      | Inr sPoll \<Rightarrow>
     (case assertPositiveInt (case a_log_lines args of None \<Rightarrow> 80 | Some x \<Rightarrow> x)
             ''log_lines'' of
        Inl e \<Rightarrow> Inl e
      | Inr sLines \<Rightarrow>
     (let follow = (case a_follow_seconds args of None \<Rightarrow> 1 | Some x \<Rightarrow> x) in
      if follow < 0 \<or> follow > 86400
      then Inl (Error ''follow_seconds must be an integer between 0 and 86400'')
      else
     (case (if sMode = Short
            then (if \<not> truthy (a_short_command args)
                  then Inl (Error ''short mode requires short_command'')
                  else (case assertString (orElse (a_short_command args) []) ''short_command'' of
                          Inl e \<Rightarrow> Inl e
                        | Inr c \<Rightarrow> Inr (Some c, None)))
            else (if \<not> truthy (a_long_command args)
                  then Inl (Error ''long mode requires long_command'')
                  else (case assertString (orElse (a_long_command args) []) ''long_command'' of
                          Inl e \<Rightarrow> Inl e
                        | Inr c \<Rightarrow> Inr (None, Some c)))) of
        Inl e \<Rightarrow> Inl e
      | Inr (sShort, sLong) \<Rightarrow>
          Inr \<lparr> safeSessionName = sName, safeServer = sServer, safeLocalPath = sLocal,
                safeRemotePath = sRemote, safeRemoteWorkingDir = sDir, safeMode = sMode,
                safeExclude = sExclude, safeMethod = sMethod,
                safeDeleteRemoteExtra =
                  (case a_delete_remote_extra args of None \<Rightarrow> False | Some b \<Rightarrow> b),
                safeDebounceMs = sDebounce, safePollInterval = sPoll,
                safeLogLines = sLines, safeFollowSeconds = follow,
                safeShortCommand = sShort, safeLongCommand = sLong \<rparr>)))))))))))))"

text \<open>The session record the handler builds.\<close>

definition newDevSession :: "string \<Rightarrow> int \<Rightarrow> SafeArgs \<Rightarrow> DevSession" where
  "newDevSession sessionId now a =
     \<lparr> sid = sessionId, name = safeSessionName a, server = safeServer a,
       localPath = safeLocalPath a, remotePath = safeRemotePath a,
       remoteWorkingDir = safeRemoteWorkingDir a, exclude = safeExclude a,
       syncMethod = safeMethod a, deleteRemoteExtra = safeDeleteRemoteExtra a,
       mode = safeMode a, shortCommand = safeShortCommand a,
       longCommand = safeLongCommand a, debounceMs = safeDebounceMs a,
       pollIntervalSeconds = safePollInterval a, logLines = safeLogLines a,
       followSeconds = safeFollowSeconds a,
       watcher = False, debounceTimer = None, pollingTimer = False,
       running = False, pending = False, stopRequested = False, status = Running,
       startedAt = now, lastSyncAt = None, lastRunAt = None, syncCount = 0, runCount = 0,
       changedPaths = [], lastError = None, lastOperation = Some ''session created'',
       pid = None, logFile = None, lastSyncResult = None, lastShortRun = None,
       lastTailLog = None, lastTailStderr = None, lastProcessInfo = None,
       isProcessRunning = None \<rparr>"

text \<open>
  The handler of \<open>dev_session_start\<close>, up to its first \<open>await\<close>: validation, then the
  session is put into the registry, the watcher and the poll timer are set up, and
  the first cycle is called, which starts the first sync. An exception of \<open>watch\<close>
  is caught and marks the session. An exception of the validation leaves the handler.
\<close>

definition dev_session_start ::
  "startEnv \<Rightarrow> StartArgs \<Rightarrow> registry \<Rightarrow> (error + string) \<times> registry" where
  "dev_session_start env args devSessions =
     (case validateStartArgs args of
        Inl e \<Rightarrow> (Inl e, devSessions)
      | Inr a \<Rightarrow>
          (let sessionId = safeSessionName a @ ''-'' @ idSuffix env;
               s = newDevSession sessionId (startClock env) a;
               m = \<lparr> session = s, activations = [], started = [] \<rparr>
           in case watchError env of
                Some message \<Rightarrow>
                  (Inr sessionId,
                   devSessions(sessionId \<mapsto> m\<lparr> session := markSessionError message s \<rparr>))
              | None \<Rightarrow>
                  (let s1 = s\<lparr> watcher := True \<rparr>;
                       s2 = (if safeMode a = Long then s1\<lparr> pollingTimer := True \<rparr> else s1)
                   in (Inr sessionId,
                       devSessions(sessionId \<mapsto>
                         runDevSessionCycle ''session start'' (m\<lparr> session := s2 \<rparr>))))))"

text \<open>Examples: a short session and its starting arguments.\<close>

definition exampleStartArgs :: StartArgs where
  "exampleStartArgs =
     \<lparr> a_session_name = Some ''trainer'', a_server = ''gpu1'', a_local_path = ''/work/app'',
       a_remote_path = ''/srv/app'', a_remote_working_dir = None, a_mode = Some ''short'',
       a_short_command = Some ''echo hi'', a_long_command = None,
       a_exclude = Some [''node_modules''], a_method = None, a_delete_remote_extra = None,
       a_debounce_ms = None, a_poll_interval_seconds = None, a_log_lines = None,
       a_follow_seconds = None \<rparr>"

definition exampleEnv :: startEnv where
  "exampleEnv = \<lparr> idSuffix = ''lx3k9a2b-f7q2zd'', startClock = 1700000000000, watchError = None \<rparr>"

definition exampleClock :: clock where
  "exampleClock = \<lparr> nowMs = 1700000001000, nowIso = ''2023-11-14T22:13:21.000Z'' \<rparr>"

section \<open>The words of the claims about sessions\<close>

text \<open>
  Single flight: at most one activation of the cycle function is suspended, and the
  \<open>running\<close> flag says whether there is one.
\<close>

definition singleFlight :: "machine \<Rightarrow> bool" where
  "singleFlight m =
     (length (activations m) \<le> 1 \<and> running (session m) = (activations m \<noteq> []))"

text \<open>A step of an activation that leaves \<open>running\<close> set exactly when it is suspended again.\<close>

definition flagFollows :: "progress \<Rightarrow> bool" where
  "flagFollows p = (case p of (s', ops, k) \<Rightarrow> running s' = (k \<noteq> None))"

text \<open>The cycles started: one \<open>performRemoteSync\<close> per iteration of the cycle loop.\<close>

definition isSyncOp :: "operation \<Rightarrow> bool" where
  "isSyncOp op = (case op of SyncOp p \<Rightarrow> True | _ \<Rightarrow> False)"

definition cyclesStarted :: "machine \<Rightarrow> nat" where
  "cyclesStarted m = length (filter isSyncOp (started m))"

text \<open>
  What arrives from outside while a cycle is running: a call of the cycle function
  (manual trigger, session start), a watch event, the debounce timer firing.
\<close>

definition isTrigger :: "event \<Rightarrow> bool" where
  "isTrigger e =
     (case e of
        CycleRequested reason \<Rightarrow> True
      | FileChanged filename \<Rightarrow> True
      | DebounceElapsed \<Rightarrow> True
      | _ \<Rightarrow> False)"

fun reasonOf :: "activation \<Rightarrow> string" where
  "reasonOf (AwaitSync reason) = reason"
| "reasonOf (AwaitShortRun reason) = reason"
| "reasonOf (AwaitProcessCheck reason) = reason"
| "reasonOf (AwaitLongStart reason f) = reason"

text \<open>
  The awaited call settles so that the current iteration ends without an error: the
  short command returned (whatever its exit code), the recorded process was found
  alive, the background start gave a process id, or the sync succeeded and there is
  nothing to run.
\<close>

fun iterationEnds :: "event \<Rightarrow> activation \<Rightarrow> DevSession \<Rightarrow> bool" where
  "iterationEnds (SyncReturned (Inr r) c) (AwaitSync reason) s =
     (success r \<and> \<not> (mode s = Short \<and> truthy (shortCommand s))
      \<and> (mode s = Long \<and> \<not> truthy (longCommand s) \<or> mode s \<noteq> Long))"
| "iterationEnds (ShortRunReturned (Inr r) c) (AwaitShortRun reason) s = True"
| "iterationEnds (ProcessCheckReturned (Inr r) c) (AwaitProcessCheck reason) s =
     (exitCode r = 0 \<and> trim (stdout r) \<noteq> [])"
| "iterationEnds (LongStartReturned (Inr r) c) (AwaitLongStart reason f) s =
     (exitCode r = 0 \<and> parseBackgroundPid (stdout r) \<noteq> None)"
| "iterationEnds e a s = False"

text \<open>
  The awaited call settles so that the current iteration fails: the call rejected,
  the sync reported no success, or the background start gave no process id.
\<close>

fun iterationFails :: "event \<Rightarrow> activation \<Rightarrow> bool" where
  "iterationFails (SyncReturned (Inl x) c) (AwaitSync reason) = True"
| "iterationFails (SyncReturned (Inr r) c) (AwaitSync reason) = (\<not> success r)"
| "iterationFails (ShortRunReturned (Inl x) c) (AwaitShortRun reason) = True"
| "iterationFails (ProcessCheckReturned (Inl x) c) (AwaitProcessCheck reason) = True"
| "iterationFails (LongStartReturned (Inl x) c) (AwaitLongStart reason f) = True"
| "iterationFails (LongStartReturned (Inr r) c) (AwaitLongStart reason f) =
     (exitCode r \<noteq> 0 \<or> parseBackgroundPid (stdout r) = None)"
| "iterationFails e a = False"

text \<open>Two states of a session with the same task: mode and commands.\<close>

definition sameTask :: "DevSession \<Rightarrow> DevSession \<Rightarrow> bool" where
  "sameTask s s' =
     (mode s' = mode s \<and> shortCommand s' = shortCommand s \<and> longCommand s' = longCommand s)"

text \<open>
  The event calls the cycle function: a direct call, or the debounce timer firing
  while it is armed. The same over a run of events.
\<close>

definition callsCycle :: "event \<Rightarrow> machine \<Rightarrow> bool" where
  "callsCycle e m =
     (case e of
        CycleRequested reason \<Rightarrow> True
      | DebounceElapsed \<Rightarrow>
          (case debounceTimer (session m) of Some (Armed reason) \<Rightarrow> True | _ \<Rightarrow> False)
      | _ \<Rightarrow> False)"

fun cycleCalled :: "event list \<Rightarrow> machine \<Rightarrow> bool" where
  "cycleCalled [] m = False"
| "cycleCalled (e # es) m = (callsCycle e m \<or> cycleCalled es (step e m))"

text \<open>The operations an event makes the session start.\<close>

definition newOperations :: "event \<Rightarrow> machine \<Rightarrow> operation list" where
  "newOperations e m = drop (length (started m)) (started (step e m))"

text \<open>
  Examples: the session of the example start, as the handler leaves it (its first
  sync in flight); the same once that sync has succeeded (its command in flight);
  results of a sync and of a command.
\<close>

definition exampleSafeArgs :: SafeArgs where
  "exampleSafeArgs =
     \<lparr> safeSessionName = ''trainer'', safeServer = ''gpu1'', safeLocalPath = ''/work/app'',
       safeRemotePath = ''/srv/app'', safeRemoteWorkingDir = ''/srv/app'', safeMode = Short,
       safeExclude = [''node_modules''], safeMethod = ''auto'',
       safeDeleteRemoteExtra = False, safeDebounceMs = 800, safePollInterval = 5,
       safeLogLines = 80, safeFollowSeconds = 1,
       safeShortCommand = Some ''echo hi'', safeLongCommand = None \<rparr>"

definition exampleMachine :: machine where
  "exampleMachine =
     runDevSessionCycle ''session start''
       \<lparr> session = (newDevSession ''trainer-lx3k9a2b-f7q2zd'' 1700000000000 exampleSafeArgs)
                     \<lparr> watcher := True \<rparr>,
         activations = [], started = [] \<rparr>"

definition exampleSyncOk :: SyncExecutionResult where
  "exampleSyncOk =
     \<lparr> success = True, sync_method = ''rsync'', exit_code = 0, sync_output = ''sent 1.2K bytes'',
       sync_stderr = [], sync_exclude = [''node_modules''], delete_remote_extra = False,
       fallback_used = False, rsync_error = None \<rparr>"

definition exampleSyncFailed :: SyncExecutionResult where
  "exampleSyncFailed =
     \<lparr> success = False, sync_method = ''rsync'', exit_code = 255, sync_output = [],
       sync_stderr = ''ssh: connect to host 10.0.0.5 port 2222: Connection refused'',
       sync_exclude = [''node_modules''], delete_remote_extra = False,
       fallback_used = False, rsync_error = None \<rparr>"

definition exampleRunOk :: ExecResult where
  "exampleRunOk = \<lparr> stdout = ''hi'', stderr = [], exitCode = 0 \<rparr>"

definition exampleCommandRunning :: machine where
  "exampleCommandRunning = step (SyncReturned (Inr exampleSyncOk) exampleClock) exampleMachine"

definition exampleTriggers :: "event list" where
  "exampleTriggers =
     [CycleRequested ''manual trigger'', FileChanged (Some ''main.py''), DebounceElapsed,
      FileChanged (Some ''node_modules''), CycleRequested ''manual trigger'']"

text \<open>
  Examples in long mode: the session as the handler leaves it; the same with its task
  running as process 4821 and a later cycle looking that process up; the output of a
  lookup that finds the process.
\<close>

definition exampleLongMachine :: machine where
  "exampleLongMachine =
     runDevSessionCycle ''session start''
       \<lparr> session = (newDevSession ''trainer-lx3k9a2b-f7q2zd'' 1700000000000
                      (exampleSafeArgs\<lparr> safeMode := Long, safeShortCommand := None,
                                         safeLongCommand := Some ''python train.py'' \<rparr>))
                     \<lparr> watcher := True, pollingTimer := True \<rparr>,
         activations = [], started = [] \<rparr>"

definition exampleAlive :: ExecResult where
  "exampleAlive = \<lparr> stdout = ''4821 Sl 00:10 python train.py'', stderr = [], exitCode = 0 \<rparr>"

definition exampleLongChecking :: machine where
  "exampleLongChecking =
     \<lparr> session = (session exampleLongMachine)
                     \<lparr> pid := Some 4821, logFile := Some ''/srv/app/trainer_2023.log'',
                       isProcessRunning := Some True, runCount := 1, syncCount := 2 \<rparr>,
       activations = [AwaitProcessCheck ''manual trigger''],
       started = [] \<rparr>"

text \<open>A session after stop: the flag is set and no debounce timer is left.\<close>

definition stoppedQuiet :: "DevSession \<Rightarrow> bool" where
  "stoppedQuiet s = (stopRequested s \<and> debounceTimer s = None)"

section \<open>Properties of the remote transport\<close>

lemma assertNoControlChars_Inr: "assertNoControlChars v f = Inr w \<Longrightarrow> w = v"
  by (simp add: assertNoControlChars_def split: if_splits)

lemma assertString_Inr: "assertString v f = Inr w \<Longrightarrow> w = v"
  by (simp add: assertString_def split: if_splits)









section \<open>Properties of the process id parser\<close>











section \<open>Properties of the path filter\<close>

text \<open>
  C4. With the exclude pattern \<open>node_modules\<close>, a path that is the pattern, or has
  it as a middle segment or as its final segment, is ignored; but a path that has it
  as its first segment, as the watcher reports every file under a top-level
  \<open>node_modules\<close> directory, is not ignored: the path has no separator before
  its first segment, so the test for \<open>/node_modules/\<close> misses it.
\<close>

theorem shouldIgnorePath_first_segment_not_ignored:
  "shouldIgnorePath ''node_modules'' [''node_modules''] = True
   \<and> shouldIgnorePath ''web/node_modules/pkg/index.js'' [''node_modules''] = True
   \<and> shouldIgnorePath ''web/node_modules'' [''node_modules''] = True
   \<and> shouldIgnorePath ''node_modules/pkg/index.js'' [''node_modules''] = False"
  by code_simp

section \<open>Properties of the sync engine\<close>







section \<open>Properties of the session cycle\<close>

lemma flagFollows_startIteration: "running s \<Longrightarrow> flagFollows (startIteration reason s)"
  by (simp add: flagFollows_def startIteration_def)

lemma flagFollows_loopCheck: "running s \<Longrightarrow> flagFollows (loopCheck reason s)"
  by (simp add: flagFollows_def loopCheck_def startIteration_def)

lemma flagFollows_thrown: "flagFollows (thrown message s)"
  by (simp add: flagFollows_def thrown_def markSessionError_def)

lemma flagFollows_startLongTask: "running s \<Longrightarrow> flagFollows (startLongTask c reason s)"
  by (simp add: flagFollows_def startLongTask_def Let_def)

lemma flagFollows_maybeStartLongTask: "running s \<Longrightarrow> flagFollows (maybeStartLongTask c reason s)"
  by (auto simp: maybeStartLongTask_def flagFollows_loopCheck flagFollows_startLongTask
      split: option.splits) (simp add: flagFollows_def)

lemma flagFollows_afterSync: "running s \<Longrightarrow> flagFollows (afterSync r c reason s)"
  by (auto simp: afterSync_def Let_def flagFollows_thrown flagFollows_loopCheck
        flagFollows_maybeStartLongTask
      split: sum.splits error.splits) (simp add: flagFollows_def)

lemma flagFollows_afterShortRun: "running s \<Longrightarrow> flagFollows (afterShortRun r c reason s)"
  by (auto simp: afterShortRun_def Let_def flagFollows_thrown flagFollows_loopCheck
      split: sum.splits error.splits)

lemma flagFollows_afterProcessCheck: "running s \<Longrightarrow> flagFollows (afterProcessCheck r c reason s)"
  by (auto simp: afterProcessCheck_def Let_def flagFollows_thrown flagFollows_loopCheck
        flagFollows_startLongTask
      split: sum.splits error.splits)

lemma flagFollows_afterLongStart: "running s \<Longrightarrow> flagFollows (afterLongStart r c reason f s)"
  by (auto simp: afterLongStart_def Let_def flagFollows_thrown flagFollows_loopCheck
      split: sum.splits error.splits option.splits)

lemma flagFollows_resume:
  "running s \<Longrightarrow> resume e a s = Some p \<Longrightarrow> flagFollows p"
  by (induction e a s rule: resume.induct)
     (auto simp: flagFollows_afterSync flagFollows_afterShortRun flagFollows_afterProcessCheck
        flagFollows_afterLongStart)

lemma running_watchCallback [simp]: "running (watchCallback f s) = running s"
  by (simp add: watchCallback_def scheduleDevSessionCycle_def Let_def split: option.splits)

lemma running_stopSession [simp]: "running (stopSession s) = running s"
  by (simp add: stopSession_def clearSessionTimers_def)

lemma singleFlight_runDevSessionCycle:
  "singleFlight m \<Longrightarrow> singleFlight (runDevSessionCycle reason m)"
  by (auto simp: singleFlight_def runDevSessionCycle_def startIteration_def Let_def)

lemma singleFlight_settle: "singleFlight m \<Longrightarrow> singleFlight (settle e m)"
proof (cases "activations m")
  case Nil
  assume "singleFlight m"
  then show ?thesis using Nil by (simp add: settle_def)
next
  case (Cons a rest)
  assume sf: "singleFlight m"
  with Cons have rest: "rest = []" and run: "running (session m)" by (auto simp: singleFlight_def)
  show ?thesis
  proof (cases "resume e a (session m)")
    case None
    then show ?thesis using sf Cons by (simp add: settle_def)
  next
    case (Some p)
    from flagFollows_resume [OF run Some] show ?thesis
      using Cons Some rest
      by (cases p) (auto simp: settle_def singleFlight_def flagFollows_def split: option.splits)
  qed
qed

lemma singleFlight_step: "singleFlight m \<Longrightarrow> singleFlight (step e m)"
proof (cases e)
  case DebounceElapsed
  assume sf: "singleFlight m"
  have "singleFlight (m\<lparr> session := (session m)\<lparr> debounceTimer := Some Fired \<rparr> \<rparr>)"
    using sf by (simp add: singleFlight_def)
  then show ?thesis using DebounceElapsed sf
    by (auto simp: step_def singleFlight_runDevSessionCycle split: option.splits timerHandle.splits)
qed (auto simp: step_def singleFlight_runDevSessionCycle singleFlight_settle,
     auto simp: singleFlight_def)

lemma singleFlight_run: "singleFlight m \<Longrightarrow> singleFlight (run es m)"
  by (induction es arbitrary: m) (simp_all add: run_def singleFlight_step)

lemma cyclesStarted_append:
  "started m' = started m @ ops \<Longrightarrow> cyclesStarted m' = cyclesStarted m + length (filter isSyncOp ops)"
  by (simp add: cyclesStarted_def)

lemma trigger_step:
  assumes "running (session m)" "isTrigger e"
  shows "activations (step e m) = activations m \<and> started (step e m) = started m
       \<and> running (session (step e m))
       \<and> stopRequested (session (step e m)) = stopRequested (session m)
       \<and> sameTask (session m) (session (step e m))
       \<and> pending (session (step e m)) =
           (pending (session m) \<or> callsCycle e m \<and> \<not> stopRequested (session m))"
  using assms
  by (cases e)
     (auto simp: isTrigger_def step_def runDevSessionCycle_def watchCallback_def
        scheduleDevSessionCycle_def sameTask_def callsCycle_def Let_def
      split: option.splits timerHandle.splits)

lemma run_snoc: "run (es @ [e]) m = step e (run es m)"
  by (simp add: run_def)

lemma run_Cons: "run (e # es) m = run es (step e m)"
  by (simp add: run_def)

lemma sameTask_refl: "sameTask s s"
  by (simp add: sameTask_def)

lemma sameTask_trans: "sameTask s s' \<Longrightarrow> sameTask s' s'' \<Longrightarrow> sameTask s s''"
  by (simp add: sameTask_def)

lemma trigger_run:
  assumes "running (session m)" "\<forall>e \<in> set ts. isTrigger e"
  shows "activations (run ts m) = activations m \<and> started (run ts m) = started m
       \<and> running (session (run ts m))
       \<and> stopRequested (session (run ts m)) = stopRequested (session m)
       \<and> sameTask (session m) (session (run ts m))
       \<and> pending (session (run ts m)) =
           (pending (session m) \<or> cycleCalled ts m \<and> \<not> stopRequested (session m))"
  using assms
proof (induction ts arbitrary: m)
  case Nil
  then show ?case by (simp add: run_def sameTask_refl)
next
  case (Cons e ts)
  from Cons.prems have e: "isTrigger e" and ts: "\<forall>x \<in> set ts. isTrigger x" by auto
  note st = trigger_step [OF Cons.prems(1) e]
  from st have r1: "running (session (step e m))" by blast
  note ih = Cons.IH [OF r1 ts]
  show ?case
    unfolding run_Cons using st ih sameTask_trans [of "session m" "session (step e m)"]
    by auto
qed

lemma iterationEnds_sameTask:
  "sameTask s s' \<Longrightarrow> iterationEnds e a s' = iterationEnds e a s"
  by (induction e a s rule: iterationEnds.induct) (auto simp: sameTask_def)

lemma ends_resume:
  assumes "iterationEnds e a s"
  shows "\<exists>s''. resume e a s = Some (loopCheck (reasonOf a) s'')
           \<and> pending s'' = pending s \<and> stopRequested s'' = stopRequested s
           \<and> running s'' = running s"
  using assms
proof (induction e a s rule: iterationEnds.induct)
  case (1 r c reason s)
  then show ?case
    by (auto simp: afterSync_def maybeStartLongTask_def Let_def intro!: exI)
next
  case (2 r c reason s)
  then show ?case by (auto simp: afterShortRun_def Let_def intro!: exI)
next
  case (3 r c reason s)
  then show ?case by (auto simp: afterProcessCheck_def Let_def intro!: exI)
next
  case (4 r c reason f s)
  then show ?case by (auto simp: afterLongStart_def Let_def intro!: exI)
qed auto

lemma fails_resume:
  assumes "iterationFails e a"
  shows "\<exists>message s''. resume e a s = Some (thrown message s'')"
  using assms
proof (induction e a rule: iterationFails.induct)
  case (1 x c reason)
  then show ?case by (cases x) (auto simp: afterSync_def)
next
  case (2 r c reason)
  then show ?case by (auto simp: afterSync_def Let_def)
next
  case (3 x c reason)
  then show ?case by (cases x) (auto simp: afterShortRun_def)
next
  case (4 x c reason)
  then show ?case by (cases x) (auto simp: afterProcessCheck_def)
next
  case (5 x c reason f)
  then show ?case by (cases x) (auto simp: afterLongStart_def)
next
  case (6 r c reason f)
  then show ?case by (auto simp: afterLongStart_def split: option.splits)
qed auto

lemma ends_step: "iterationEnds e a s \<Longrightarrow> step e m = settle e m"
  by (cases e) (auto simp: step_def)

lemma fails_step: "iterationFails e a \<Longrightarrow> step e m = settle e m"
  by (cases e) (auto simp: step_def)

lemma ends_settle:
  assumes act: "activations m = [a]" and en: "iterationEnds e a (session m)"
  shows "(pending (session m) \<and> \<not> stopRequested (session m) \<longrightarrow>
            activations (settle e m) = [AwaitSync (reasonOf a)]
            \<and> cyclesStarted (settle e m) = cyclesStarted m + 1
            \<and> \<not> pending (session (settle e m))
            \<and> running (session (settle e m)) = running (session m))
       \<and> (\<not> (pending (session m) \<and> \<not> stopRequested (session m)) \<longrightarrow>
            activations (settle e m) = []
            \<and> started (settle e m) = started m
            \<and> \<not> running (session (settle e m)))"
proof -
  from ends_resume [OF en] obtain s'' where
    r: "resume e a (session m) = Some (loopCheck (reasonOf a) s'')"
    and p: "pending s'' = pending (session m)"
    and st: "stopRequested s'' = stopRequested (session m)"
    and ru: "running s'' = running (session m)"
    by blast
  show ?thesis
    using p st ru
    by (auto simp: settle_def act r loopCheck_def startIteration_def cyclesStarted_def isSyncOp_def)
qed

lemma fails_settle:
  assumes act: "activations m = [a]" and fl: "iterationFails e a"
  shows "activations (settle e m) = [] \<and> started (settle e m) = started m
       \<and> \<not> running (session (settle e m)) \<and> status (session (settle e m)) = ErrorState"
proof -
  from fails_resume [OF fl] obtain message s'' where
    r: "resume e a (session m) = Some (thrown message s'')"
    by blast
  show ?thesis
    by (simp add: settle_def act r thrown_def markSessionError_def)
qed

text \<open>
  C1, as amended. Take a session with a cycle in flight (one suspended activation
  \<open>a\<close>, the session single-flight) and no stop requested. Whatever happens, the
  session stays single-flight: at most one activation, and \<open>running\<close> set exactly
  when there is one. While the cycle is in flight, any run \<open>ts\<close> of triggers (calls
  of the cycle function, watch events, the debounce timer firing) starts no cycle
  and leaves the activation as it is; the pending flag is set as soon as one of
  them called the cycle function. When the current iteration then ends without an
  error and some trigger called the cycle function, exactly one more cycle is
  started, however many triggers there were, and the pending flag is cleared; when
  no trigger called it and the flag was clear, none is started and the cycle
  function returns. When the current iteration fails instead, no further cycle is
  started whatever triggers arrived: the activation returns and the session is
  marked as in error.
\<close>

theorem single_flight_pending_merge:
  assumes sf: "singleFlight m" and act: "activations m = [a]"
    and ns: "\<not> stopRequested (session m)"
  shows "singleFlight (run es m)
    \<and> ((\<forall>x \<in> set ts. isTrigger x) \<longrightarrow>
          activations (run ts m) = [a] \<and> cyclesStarted (run ts m) = cyclesStarted m
          \<and> pending (session (run ts m)) = (pending (session m) \<or> cycleCalled ts m))
    \<and> ((\<forall>x \<in> set ts. isTrigger x) \<and> cycleCalled ts m \<and> iterationEnds e a (session m) \<longrightarrow>
          cyclesStarted (run (ts @ [e]) m) = cyclesStarted m + 1
          \<and> activations (run (ts @ [e]) m) = [AwaitSync (reasonOf a)]
          \<and> \<not> pending (session (run (ts @ [e]) m)))
    \<and> ((\<forall>x \<in> set ts. isTrigger x) \<and> \<not> cycleCalled ts m \<and> \<not> pending (session m)
        \<and> iterationEnds e a (session m) \<longrightarrow>
          cyclesStarted (run (ts @ [e]) m) = cyclesStarted m
          \<and> activations (run (ts @ [e]) m) = []
          \<and> \<not> running (session (run (ts @ [e]) m)))
    \<and> ((\<forall>x \<in> set ts. isTrigger x) \<and> iterationFails e a \<longrightarrow>
          cyclesStarted (run (ts @ [e]) m) = cyclesStarted m
          \<and> activations (run (ts @ [e]) m) = [] \<and> \<not> running (session (run (ts @ [e]) m))
          \<and> status (session (run (ts @ [e]) m)) = ErrorState)"
proof -
  from sf act have run: "running (session m)" by (simp add: singleFlight_def)
  have p1: "singleFlight (run es m)" by (rule singleFlight_run [OF sf])
  have tr: "(\<forall>x \<in> set ts. isTrigger x) \<Longrightarrow>
      activations (run ts m) = [a] \<and> started (run ts m) = started m
       \<and> \<not> stopRequested (session (run ts m))
       \<and> sameTask (session m) (session (run ts m))
       \<and> pending (session (run ts m)) = (pending (session m) \<or> cycleCalled ts m)"
    using trigger_run [OF run, of ts] act ns by simp
  have p2: "(\<forall>x \<in> set ts. isTrigger x) \<longrightarrow>
          activations (run ts m) = [a] \<and> cyclesStarted (run ts m) = cyclesStarted m
          \<and> pending (session (run ts m)) = (pending (session m) \<or> cycleCalled ts m)"
    using tr by (simp add: cyclesStarted_def)
  have p3: "(\<forall>x \<in> set ts. isTrigger x) \<and> cycleCalled ts m \<and> iterationEnds e a (session m) \<longrightarrow>
          cyclesStarted (run (ts @ [e]) m) = cyclesStarted m + 1
          \<and> activations (run (ts @ [e]) m) = [AwaitSync (reasonOf a)]
          \<and> \<not> pending (session (run (ts @ [e]) m))"
  proof (intro impI, elim conjE)
    assume t: "\<forall>x \<in> set ts. isTrigger x" and c: "cycleCalled ts m"
      and en: "iterationEnds e a (session m)"
    let ?m1 = "run ts m"
    from tr [OF t] c have a1: "activations ?m1 = [a]" and s1: "started ?m1 = started m"
      and ns1: "\<not> stopRequested (session ?m1)" and pe: "pending (session ?m1)"
      and same: "sameTask (session m) (session ?m1)"
      by auto
    from en same have en1: "iterationEnds e a (session ?m1)"
      by (simp add: iterationEnds_sameTask)
    from ends_settle [OF a1 en1] pe ns1 s1
    show "cyclesStarted (run (ts @ [e]) m) = cyclesStarted m + 1
          \<and> activations (run (ts @ [e]) m) = [AwaitSync (reasonOf a)]
          \<and> \<not> pending (session (run (ts @ [e]) m))"
      by (simp add: run_snoc ends_step [OF en1] cyclesStarted_def)
  qed
  have p4: "(\<forall>x \<in> set ts. isTrigger x) \<and> \<not> cycleCalled ts m \<and> \<not> pending (session m)
        \<and> iterationEnds e a (session m) \<longrightarrow>
          cyclesStarted (run (ts @ [e]) m) = cyclesStarted m
          \<and> activations (run (ts @ [e]) m) = []
          \<and> \<not> running (session (run (ts @ [e]) m))"
  proof (intro impI, elim conjE)
    assume t: "\<forall>x \<in> set ts. isTrigger x" and c: "\<not> cycleCalled ts m"
      and np: "\<not> pending (session m)" and en: "iterationEnds e a (session m)"
    let ?m1 = "run ts m"
    from tr [OF t] c np have a1: "activations ?m1 = [a]" and s1: "started ?m1 = started m"
      and pe: "\<not> pending (session ?m1)"
      and same: "sameTask (session m) (session ?m1)"
      by auto
    from en same have en1: "iterationEnds e a (session ?m1)"
      by (simp add: iterationEnds_sameTask)
    from ends_settle [OF a1 en1] pe s1
    show "cyclesStarted (run (ts @ [e]) m) = cyclesStarted m
          \<and> activations (run (ts @ [e]) m) = []
          \<and> \<not> running (session (run (ts @ [e]) m))"
      by (simp add: run_snoc ends_step [OF en1] cyclesStarted_def)
  qed
  have p5: "(\<forall>x \<in> set ts. isTrigger x) \<and> iterationFails e a \<longrightarrow>
          cyclesStarted (run (ts @ [e]) m) = cyclesStarted m
          \<and> activations (run (ts @ [e]) m) = [] \<and> \<not> running (session (run (ts @ [e]) m))
          \<and> status (session (run (ts @ [e]) m)) = ErrorState"
  proof (intro impI, elim conjE)
    assume t: "\<forall>x \<in> set ts. isTrigger x" and fl: "iterationFails e a"
    let ?m1 = "run ts m"
    from tr [OF t] have a1: "activations ?m1 = [a]" and s1: "started ?m1 = started m"
      by auto
    from fails_settle [OF a1 fl] s1
    show "cyclesStarted (run (ts @ [e]) m) = cyclesStarted m
          \<and> activations (run (ts @ [e]) m) = [] \<and> \<not> running (session (run (ts @ [e]) m))
          \<and> status (session (run (ts @ [e]) m)) = ErrorState"
      by (simp add: run_snoc fails_step [OF fl] cyclesStarted_def)
  qed
  from p1 p2 p3 p4 p5 show ?thesis by blast
qed

theorem single_flight_pending_merge_witness:
  "cyclesStarted exampleCommandRunning = 1
   \<and> activations (run exampleTriggers exampleCommandRunning) = [AwaitShortRun ''session start'']
   \<and> cyclesStarted (run exampleTriggers exampleCommandRunning) = 1
   \<and> cyclesStarted (run (exampleTriggers @ [ShortRunReturned (Inr exampleRunOk) exampleClock])
        exampleCommandRunning) = 2
   \<and> activations (run (exampleTriggers @ [ShortRunReturned (Inr exampleRunOk) exampleClock])
        exampleCommandRunning) = [AwaitSync ''session start'']
   \<and> cyclesStarted (run [FileChanged (Some ''main.py''),
                          ShortRunReturned (Inr exampleRunOk) exampleClock]
        exampleCommandRunning) = 1
   \<and> activations (run [FileChanged (Some ''main.py''),
                        ShortRunReturned (Inr exampleRunOk) exampleClock]
        exampleCommandRunning) = []
   \<and> cyclesStarted (run (exampleTriggers
          @ [ShortRunReturned (Inl (Error ''ssh: spawn failed'')) exampleClock])
        exampleCommandRunning) = 1
   \<and> activations (run (exampleTriggers
          @ [ShortRunReturned (Inl (Error ''ssh: spawn failed'')) exampleClock])
        exampleCommandRunning) = []"
proof -
  have a1: "singleFlight exampleCommandRunning" by code_simp
  have a2: "activations exampleCommandRunning = [AwaitShortRun ''session start'']" by code_simp
  have a3: "\<not> stopRequested (session exampleCommandRunning)" by code_simp
  have a4: "\<forall>x \<in> set exampleTriggers. isTrigger x" by code_simp
  have a5: "cycleCalled exampleTriggers exampleCommandRunning" by code_simp
  have a6: "cyclesStarted exampleCommandRunning = 1" by code_simp
  have a7: "iterationEnds (ShortRunReturned (Inr exampleRunOk) exampleClock)
              (AwaitShortRun ''session start'') (session exampleCommandRunning)"
    by code_simp
  have b4: "\<forall>x \<in> set [FileChanged (Some ''main.py'')]. isTrigger x" by code_simp
  have b5: "\<not> cycleCalled [FileChanged (Some ''main.py'')] exampleCommandRunning" by code_simp
  have b6: "\<not> pending (session exampleCommandRunning)" by code_simp
  have c7: "iterationFails (ShortRunReturned (Inl (Error ''ssh: spawn failed'')) exampleClock)
              (AwaitShortRun ''session start'')"
    by simp
  note t1 = single_flight_pending_merge [OF a1 a2 a3, of "[]" exampleTriggers
      "ShortRunReturned (Inr exampleRunOk) exampleClock"]
  note t2 = single_flight_pending_merge [OF a1 a2 a3, of "[]" "[FileChanged (Some ''main.py'')]"
      "ShortRunReturned (Inr exampleRunOk) exampleClock"]
  note t3 = single_flight_pending_merge [OF a1 a2 a3, of "[]" exampleTriggers
      "ShortRunReturned (Inl (Error ''ssh: spawn failed'')) exampleClock"]
  from t1 a4 a5 a6 a7 have p1:
    "activations (run exampleTriggers exampleCommandRunning) = [AwaitShortRun ''session start'']
   \<and> cyclesStarted (run exampleTriggers exampleCommandRunning) = 1
   \<and> cyclesStarted (run (exampleTriggers @ [ShortRunReturned (Inr exampleRunOk) exampleClock])
        exampleCommandRunning) = 2
   \<and> activations (run (exampleTriggers @ [ShortRunReturned (Inr exampleRunOk) exampleClock])
        exampleCommandRunning) = [AwaitSync ''session start'']"
    by simp
  from t2 b4 b5 b6 a6 a7 have p2:
    "cyclesStarted (run ([FileChanged (Some ''main.py'')]
          @ [ShortRunReturned (Inr exampleRunOk) exampleClock]) exampleCommandRunning) = 1
   \<and> activations (run ([FileChanged (Some ''main.py'')]
          @ [ShortRunReturned (Inr exampleRunOk) exampleClock]) exampleCommandRunning) = []"
    by simp
  from t3 a4 a6 c7 have p3:
    "cyclesStarted (run (exampleTriggers
          @ [ShortRunReturned (Inl (Error ''ssh: spawn failed'')) exampleClock])
        exampleCommandRunning) = 1
   \<and> activations (run (exampleTriggers
          @ [ShortRunReturned (Inl (Error ''ssh: spawn failed'')) exampleClock])
        exampleCommandRunning) = []"
    by simp
  from a6 p1 p2 p3 show ?thesis by simp
qed

text \<open>
  C1 as stated fails: a trigger arrives while the first sync is in flight and sets
  the pending flag; the sync then reports a failure, and the cycle function returns
  with one cycle started in all, nothing suspended and no timer armed: zero
  additional cycles.
\<close>

theorem pending_trigger_dropped_when_sync_fails:
  "activations (run [CycleRequested ''manual trigger''] exampleMachine) = [AwaitSync ''session start'']
   \<and> pending (session (run [CycleRequested ''manual trigger''] exampleMachine))
   \<and> cyclesStarted (run [CycleRequested ''manual trigger''] exampleMachine) = 1
   \<and> cyclesStarted (run [CycleRequested ''manual trigger'',
                          SyncReturned (Inr exampleSyncFailed) exampleClock] exampleMachine) = 1
   \<and> activations (run [CycleRequested ''manual trigger'',
                        SyncReturned (Inr exampleSyncFailed) exampleClock] exampleMachine) = []
   \<and> debounceTimer (session (run [CycleRequested ''manual trigger'',
                        SyncReturned (Inr exampleSyncFailed) exampleClock] exampleMachine)) = None"
  by code_simp





lemma started_step: "\<exists>ops. started (step e m) = started m @ ops"
proof (cases e)
  case (CycleRequested r)
  then show ?thesis
    by (auto simp: step_def runDevSessionCycle_def startIteration_def Let_def)
next
  case DebounceElapsed
  then show ?thesis
    by (auto simp: step_def runDevSessionCycle_def startIteration_def Let_def
        split: option.splits timerHandle.splits)
qed (auto simp: step_def settle_def split: list.splits option.splits)

lemma newOperations_eq: "started (step e m) = started m @ ops \<Longrightarrow> newOperations e m = ops"
  by (simp add: newOperations_def)

lemma loopCheck_ops: "loopCheck reason s = (s', ops, k) \<Longrightarrow>
    (\<forall>op \<in> set ops. isSyncOp op) \<and> pid s' = pid s \<and> logFile s' = logFile s"
  by (auto simp: loopCheck_def startIteration_def isSyncOp_def split: if_splits)

lemma thrown_ops: "thrown msg s = (s', ops, k) \<Longrightarrow> ops = [] \<and> pid s' = pid s \<and> logFile s' = logFile s"
  by (auto simp: thrown_def markSessionError_def)

lemma startLongTask_ops: "startLongTask c reason s = (s', ops, k) \<Longrightarrow> pid s' = pid s \<and> logFile s' = logFile s"
  by (auto simp: startLongTask_def Let_def)

lemma afterProcessCheck_alive:
  assumes "exitCode x = 0" "trim (stdout x) \<noteq> []"
    and "afterProcessCheck (Inr x) c reason s = (s', ops, k)"
  shows "pid s' = pid s \<and> logFile s' = logFile s \<and> isProcessRunning s' = Some True
       \<and> (\<forall>op \<in> set ops. isSyncOp op)"
  using assms
  by (auto simp: afterProcessCheck_def Let_def loopCheck_def startIteration_def isSyncOp_def
      split: if_splits)

lemma launch_resume:
  assumes "resume e a s = Some (s', ops, k)" "LongStartOp cmd \<in> set ops"
  shows "(mode s = Long \<and> (pid s = None \<or> pid s = Some 0)
            \<and> (\<exists>res c. e = SyncReturned (Inr res) c \<and> success res))
       \<or> (\<exists>x c. e = ProcessCheckReturned (Inr x) c \<and> (exitCode x \<noteq> 0 \<or> trim (stdout x) = []))"
  using assms
proof (induction e a s rule: resume.induct)
  case (1 r c reason s)
  then show ?case
    by (auto simp: afterSync_def thrown_def loopCheck_def startIteration_def
          maybeStartLongTask_def startLongTask_def Let_def
        split: sum.splits error.splits if_splits option.splits)
next
  case (2 r c reason s)
  then show ?case
    by (auto simp: afterShortRun_def thrown_def loopCheck_def startIteration_def Let_def
        split: sum.splits error.splits if_splits)
next
  case (3 r c reason s)
  then show ?case
    by (auto simp: afterProcessCheck_def thrown_def loopCheck_def startIteration_def
          startLongTask_def Let_def
        split: sum.splits error.splits if_splits)
next
  case (4 r c reason f s)
  then show ?case
    by (auto simp: afterLongStart_def thrown_def loopCheck_def startIteration_def Let_def
        split: sum.splits error.splits if_splits option.splits)
qed auto

lemma pid_resume:
  assumes "resume e a s = Some (s', ops, k)" "pid s' \<noteq> pid s"
  shows "\<exists>r c. e = LongStartReturned (Inr r) c \<and> exitCode r = 0
           \<and> parseBackgroundPid (stdout r) = pid s'"
  using assms
proof (induction e a s rule: resume.induct)
  case (1 r c reason s)
  then show ?case
    by (auto simp: afterSync_def thrown_def markSessionError_def loopCheck_def startIteration_def
          maybeStartLongTask_def startLongTask_def Let_def
        split: sum.splits error.splits if_splits option.splits)
next
  case (2 r c reason s)
  then show ?case
    by (auto simp: afterShortRun_def thrown_def markSessionError_def loopCheck_def
          startIteration_def Let_def
        split: sum.splits error.splits if_splits)
next
  case (3 r c reason s)
  then show ?case
    by (auto simp: afterProcessCheck_def thrown_def markSessionError_def loopCheck_def
          startIteration_def startLongTask_def Let_def
        split: sum.splits error.splits if_splits)
next
  case (4 r c reason f s)
  then show ?case
    by (auto simp: afterLongStart_def thrown_def markSessionError_def loopCheck_def
          startIteration_def Let_def
        split: sum.splits error.splits if_splits option.splits)
qed auto

lemma pid_watchCallback [simp]: "pid (watchCallback f s) = pid s"
  by (simp add: watchCallback_def scheduleDevSessionCycle_def Let_def split: option.splits)

lemma pid_stopSession [simp]: "pid (stopSession s) = pid s"
  by (simp add: stopSession_def clearSessionTimers_def)

lemma settle_cases:
  "settle e m = m \<or>
   (\<exists>a rest s' ops k. activations m = a # rest \<and> resume e a (session m) = Some (s', ops, k)
      \<and> settle e m = m\<lparr> session := s', started := started m @ ops,
           activations := (case k of None \<Rightarrow> rest | Some a' \<Rightarrow> a' # rest) \<rparr>)"
  by (auto simp: settle_def split: list.splits option.splits)

lemma check_resume:
  assumes "resume e a s = Some (s', ops, k)" "ProcessCheckOp cmd \<in> set ops"
  shows "\<exists>p. pid s = Some p \<and> p \<noteq> 0 \<and> cmd = processCheckCommand p"
  using assms
proof (induction e a s rule: resume.induct)
  case (1 r c reason s)
  then show ?case
    by (auto simp: afterSync_def thrown_def loopCheck_def startIteration_def
          maybeStartLongTask_def startLongTask_def Let_def
        split: sum.splits error.splits if_splits option.splits)
next
  case (2 r c reason s)
  then show ?case
    by (auto simp: afterShortRun_def thrown_def loopCheck_def startIteration_def Let_def
        split: sum.splits error.splits if_splits)
next
  case (3 r c reason s)
  then show ?case
    by (auto simp: afterProcessCheck_def thrown_def loopCheck_def startIteration_def
          startLongTask_def Let_def
        split: sum.splits error.splits if_splits)
next
  case (4 r c reason f s)
  then show ?case
    by (auto simp: afterLongStart_def thrown_def loopCheck_def startIteration_def Let_def
        split: sum.splits error.splits if_splits option.splits)
qed auto

lemma newOperations_cases:
  "newOperations e m = [] \<or> (\<exists>p. newOperations e m = [SyncOp p])
   \<or> (\<exists>a rest s' ops k. activations m = a # rest \<and> resume e a (session m) = Some (s', ops, k)
        \<and> step e m = m\<lparr> session := s', started := started m @ ops,
             activations := (case k of None \<Rightarrow> rest | Some a' \<Rightarrow> a' # rest) \<rparr>
        \<and> newOperations e m = ops)"
proof (cases e)
  case (CycleRequested r)
  then show ?thesis
    by (auto simp: newOperations_def step_def runDevSessionCycle_def startIteration_def Let_def)
next
  case DebounceElapsed
  then show ?thesis
    by (auto simp: newOperations_def step_def runDevSessionCycle_def startIteration_def Let_def
        split: option.splits timerHandle.splits)
next
  case (SyncReturned r c)
  then show ?thesis using settle_cases [of e m]
    by (auto simp: newOperations_def step_def)
next
  case (ShortRunReturned r c)
  then show ?thesis using settle_cases [of e m]
    by (auto simp: newOperations_def step_def)
next
  case (ProcessCheckReturned r c)
  then show ?thesis using settle_cases [of e m]
    by (auto simp: newOperations_def step_def)
next
  case (LongStartReturned r c)
  then show ?thesis using settle_cases [of e m]
    by (auto simp: newOperations_def step_def)
qed (auto simp: newOperations_def step_def)

lemma pid_step:
  assumes "pid (session (step e m)) \<noteq> pid (session m)"
  shows "\<exists>r c. e = LongStartReturned (Inr r) c \<and> exitCode r = 0
           \<and> parseBackgroundPid (stdout r) = pid (session (step e m))"
proof (cases e)
  case (CycleRequested r)
  then show ?thesis using assms
    by (auto simp: step_def runDevSessionCycle_def startIteration_def Let_def split: if_splits)
next
  case DebounceElapsed
  then show ?thesis using assms
    by (auto simp: step_def runDevSessionCycle_def startIteration_def Let_def
        split: option.splits timerHandle.splits if_splits)
next
  case (SyncReturned r c)
  then show ?thesis using settle_cases [of e m] assms pid_resume
    by (fastforce simp: step_def)
next
  case (ShortRunReturned r c)
  then show ?thesis using settle_cases [of e m] assms pid_resume
    by (fastforce simp: step_def)
next
  case (ProcessCheckReturned r c)
  then show ?thesis using settle_cases [of e m] assms pid_resume
    by (fastforce simp: step_def)
next
  case (LongStartReturned r c)
  then show ?thesis using settle_cases [of e m] assms pid_resume [of e]
    by (fastforce simp: step_def)
qed (use assms in \<open>auto simp: step_def split: if_splits\<close>)

text \<open>
  C8. The session remembers one process id (the field \<open>pid\<close>). When the lookup on
  the recorded id comes back with exit code 0 and a non-empty output, the
  ensure-running step ends there: \<open>pid\<close> and \<open>logFile\<close> stay as they are, the
  process counts as running, and no background start is issued (the only operation
  the step may start is the sync of the next iteration). An event makes the session
  issue a background start only when a sync has just succeeded in long mode with no
  process id recorded, or when a lookup came back with a nonzero exit code or an
  empty output. A lookup is only ever issued on the recorded id. And \<open>pid\<close>
  changes only when a background start returns with exit code 0, to the id parsed
  from its output.
\<close>

theorem long_task_restart_guard:
  "(activations m = AwaitProcessCheck reason # rest \<and> exitCode x = 0 \<and> trim (stdout x) \<noteq> [] \<longrightarrow>
       pid (session (step (ProcessCheckReturned (Inr x) c) m)) = pid (session m)
     \<and> logFile (session (step (ProcessCheckReturned (Inr x) c) m)) = logFile (session m)
     \<and> isProcessRunning (session (step (ProcessCheckReturned (Inr x) c) m)) = Some True
     \<and> (\<forall>op \<in> set (newOperations (ProcessCheckReturned (Inr x) c) m). isSyncOp op))
   \<and> (LongStartOp cmd \<in> set (newOperations e m) \<longrightarrow>
        (mode (session m) = Long \<and> (pid (session m) = None \<or> pid (session m) = Some 0)
           \<and> (\<exists>res c. e = SyncReturned (Inr res) c \<and> success res))
        \<or> (\<exists>y c. e = ProcessCheckReturned (Inr y) c \<and> (exitCode y \<noteq> 0 \<or> trim (stdout y) = [])))
   \<and> (ProcessCheckOp cmd \<in> set (newOperations e m) \<longrightarrow>
        (\<exists>p. pid (session m) = Some p \<and> p \<noteq> 0 \<and> cmd = processCheckCommand p))
   \<and> (pid (session (step e m)) \<noteq> pid (session m) \<longrightarrow>
        (\<exists>r c. e = LongStartReturned (Inr r) c \<and> exitCode r = 0
           \<and> parseBackgroundPid (stdout r) = pid (session (step e m))))"
proof -
  have alive: "activations m = AwaitProcessCheck reason # rest \<and> exitCode x = 0 \<and> trim (stdout x) \<noteq> [] \<longrightarrow>
       pid (session (step (ProcessCheckReturned (Inr x) c) m)) = pid (session m)
     \<and> logFile (session (step (ProcessCheckReturned (Inr x) c) m)) = logFile (session m)
     \<and> isProcessRunning (session (step (ProcessCheckReturned (Inr x) c) m)) = Some True
     \<and> (\<forall>op \<in> set (newOperations (ProcessCheckReturned (Inr x) c) m). isSyncOp op)"
  proof (intro impI, elim conjE)
    assume act: "activations m = AwaitProcessCheck reason # rest"
      and x0: "exitCode x = 0" and x1: "trim (stdout x) \<noteq> []"
    obtain s' ops k where p: "afterProcessCheck (Inr x) c reason (session m) = (s', ops, k)"
      by (cases "afterProcessCheck (Inr x) c reason (session m)") auto
    have st: "step (ProcessCheckReturned (Inr x) c) m =
        m\<lparr> session := s', started := started m @ ops,
           activations := (case k of None \<Rightarrow> rest | Some a' \<Rightarrow> a' # rest) \<rparr>"
      by (simp add: step_def settle_def act p)
    have no: "newOperations (ProcessCheckReturned (Inr x) c) m = ops"
      by (simp add: newOperations_def st)
    from afterProcessCheck_alive [OF x0 x1 p]
    show "pid (session (step (ProcessCheckReturned (Inr x) c) m)) = pid (session m)
     \<and> logFile (session (step (ProcessCheckReturned (Inr x) c) m)) = logFile (session m)
     \<and> isProcessRunning (session (step (ProcessCheckReturned (Inr x) c) m)) = Some True
     \<and> (\<forall>op \<in> set (newOperations (ProcessCheckReturned (Inr x) c) m). isSyncOp op)"
      unfolding no unfolding st by simp
  qed
  have launch: "LongStartOp cmd \<in> set (newOperations e m) \<longrightarrow>
        (mode (session m) = Long \<and> (pid (session m) = None \<or> pid (session m) = Some 0)
           \<and> (\<exists>res c. e = SyncReturned (Inr res) c \<and> success res))
        \<or> (\<exists>y c. e = ProcessCheckReturned (Inr y) c \<and> (exitCode y \<noteq> 0 \<or> trim (stdout y) = []))"
    using newOperations_cases [of e m] launch_resume [of e _ "session m" _ _ _ cmd]
    by (elim disjE exE conjE) auto
  have check: "ProcessCheckOp cmd \<in> set (newOperations e m) \<longrightarrow>
        (\<exists>p. pid (session m) = Some p \<and> p \<noteq> 0 \<and> cmd = processCheckCommand p)"
    using newOperations_cases [of e m] check_resume [of e _ "session m" _ _ _ cmd]
    by (elim disjE exE conjE) auto
  have change: "pid (session (step e m)) \<noteq> pid (session m) \<longrightarrow>
        (\<exists>r c. e = LongStartReturned (Inr r) c \<and> exitCode r = 0
           \<and> parseBackgroundPid (stdout r) = pid (session (step e m)))"
    using pid_step by blast
  from alive launch check change show ?thesis by blast
qed

theorem long_task_restart_guard_witness:
  "pid (session exampleLongChecking) = Some 4821
   \<and> pid (session (step (ProcessCheckReturned (Inr exampleAlive) exampleClock)
                     exampleLongChecking)) = Some 4821
   \<and> logFile (session (step (ProcessCheckReturned (Inr exampleAlive) exampleClock)
                     exampleLongChecking)) = logFile (session exampleLongChecking)
   \<and> newOperations (ProcessCheckReturned (Inr exampleAlive) exampleClock) exampleLongChecking = []
   \<and> (\<exists>cmd. newOperations (SyncReturned (Inr exampleSyncOk) exampleClock) exampleLongMachine
               = [LongStartOp cmd])
   \<and> mode (session exampleLongMachine) = Long
   \<and> pid (session exampleLongMachine) = None"
proof -
  have a: "activations exampleLongChecking = AwaitProcessCheck ''manual trigger'' # []"
    by code_simp
  have x0: "exitCode exampleAlive = 0" by code_simp
  have x1: "trim (stdout exampleAlive) \<noteq> []" by code_simp
  have p: "pid (session exampleLongChecking) = Some 4821" by code_simp
  have n: "newOperations (ProcessCheckReturned (Inr exampleAlive) exampleClock) exampleLongChecking = []"
    by code_simp
  have l: "(case newOperations (SyncReturned (Inr exampleSyncOk) exampleClock) exampleLongMachine of
              [LongStartOp cmd] \<Rightarrow> True | _ \<Rightarrow> False)"
    by code_simp
  then obtain cmd where c: "newOperations (SyncReturned (Inr exampleSyncOk) exampleClock)
      exampleLongMachine = [LongStartOp cmd]"
    by (auto split: list.splits operation.splits)
  then have mem: "LongStartOp cmd \<in> set (newOperations (SyncReturned (Inr exampleSyncOk) exampleClock)
      exampleLongMachine)"
    by simp
  note t1 = long_task_restart_guard [of exampleLongChecking "''manual trigger''" "[]" exampleAlive
      exampleClock]
  note t2 = long_task_restart_guard [where m = exampleLongMachine and cmd = cmd
      and e = "SyncReturned (Inr exampleSyncOk) exampleClock"]
  from t2 mem have q: "mode (session exampleLongMachine) = Long
      \<and> (pid (session exampleLongMachine) = None \<or> pid (session exampleLongMachine) = Some 0)"
    by auto
  have q0: "pid (session exampleLongMachine) \<noteq> Some 0" by code_simp
  from t1 a x0 x1 p n c q q0 show ?thesis by simp
qed

lemma stopped_loopCheck:
  "stoppedQuiet s \<Longrightarrow> loopCheck reason s = (s\<lparr> running := False \<rparr>, [], None)"
  by (simp add: loopCheck_def stoppedQuiet_def)







section \<open>Properties of the session start\<close>

lemma assertSessionName_rejects:
  assumes "\<exists>c \<in> set n. \<not> isSafeNameChar c"
  shows "\<exists>e. assertSessionName n = Inl e"
proof (cases "assertString n ''session_name''")
  case (Inl e)
  then show ?thesis by (simp add: assertSessionName_def)
next
  case (Inr s)
  then have s: "s = n" by (rule assertString_Inr)
  show ?thesis
  proof (cases "assertNoControlChars s ''session_name''")
    case (Inl e)
    then show ?thesis using Inr by (simp add: assertSessionName_def)
  next
    case (Inr t)
    then have "t = n" using s assertNoControlChars_Inr by blast
    then have "\<not> matchesSafeName t" using assms by (auto simp: matchesSafeName_def)
    then show ?thesis using Inr \<open>assertString n ''session_name'' = Inr s\<close>
      by (simp add: assertSessionName_def)
  qed
qed

text \<open>
  C7. When the \<open>session_name\<close> given to \<open>dev_session_start\<close> has a character
  other than a letter, a digit, \<open>.\<close>, \<open>_\<close> or \<open>-\<close>, the validation of the name
  fails and the handler fails with that error, with the registry as it was: no
  session was put into it, so no watcher or timer was set up and no operation was
  started (each of these would be part of a session of the registry).
\<close>

theorem start_validation_precedes_effects:
  assumes "a_session_name args = Some n" and "\<exists>c \<in> set n. \<not> isSafeNameChar c"
  shows "\<exists>e. assertSessionName n = Inl e
           \<and> dev_session_start env args devSessions = (Inl e, devSessions)"
proof -
  from assertSessionName_rejects [OF assms(2)] obtain e where e: "assertSessionName n = Inl e"
    by blast
  have "validateStartArgs args = Inl e"
    by (simp add: validateStartArgs_def assms(1) e)
  then have "dev_session_start env args devSessions = (Inl e, devSessions)"
    by (simp add: dev_session_start_def)
  with e show ?thesis by blast
qed

theorem start_validation_precedes_effects_witness:
  "dev_session_start exampleEnv (exampleStartArgs\<lparr> a_session_name := Some ''my session'' \<rparr>)
      Map.empty
     = (Inl (Error ''session_name must contain only letters, numbers, ., _, -''), Map.empty)
   \<and> fst (dev_session_start exampleEnv exampleStartArgs Map.empty)
        = Inr ''trainer-lx3k9a2b-f7q2zd''
   \<and> snd (dev_session_start exampleEnv exampleStartArgs Map.empty) ''trainer-lx3k9a2b-f7q2zd''
        = Some exampleMachine"
proof -
  have n: "a_session_name (exampleStartArgs\<lparr> a_session_name := Some ''my session'' \<rparr>)
             = Some ''my session''"
    by simp
  have b: "\<exists>c \<in> set ''my session''. \<not> isSafeNameChar c" by code_simp
  have m: "assertSessionName ''my session''
             = Inl (Error ''session_name must contain only letters, numbers, ., _, -'')"
    by code_simp
  have ok: "fst (dev_session_start exampleEnv exampleStartArgs Map.empty)
        = Inr ''trainer-lx3k9a2b-f7q2zd''
   \<and> snd (dev_session_start exampleEnv exampleStartArgs Map.empty) ''trainer-lx3k9a2b-f7q2zd''
        = Some exampleMachine"
    by code_simp
  from start_validation_precedes_effects [OF n b, of exampleEnv Map.empty] m ok
  show ?thesis by auto
qed

end
